theory Spec2Isabelle
  imports Complex_Main
begin

section \<open>Mel-frequency cepstral coefficients: the model of \<open>python_mfcc.py\<close>\<close>

text \<open>
  The class \<open>PythonMFCC\<close> has no fields; its five methods are modelled as functions.
  Python's unbounded \<open>int\<close> is \<open>int\<close>. Python's \<open>float\<close> is modelled by \<open>real\<close>:
  arithmetic is exact, so rounding, overflow to infinity and the \<open>OverflowError\<close> of
  \<open>pow\<close> on results beyond the range of a double are outside the model. What Python
  raises on a condition of the mathematical value is a branch of the model: division
  by zero, \<open>math.sqrt\<close> and \<open>math.log\<close> outside their domain, and an array index out of
  range.
\<close>

subsection \<open>Errors and the primitives that raise them\<close>

datatype py_error = ZeroDivisionError | ValueError | IndexError

definition and_then :: "py_error + 'a \<Rightarrow> ('a \<Rightarrow> py_error + 'b) \<Rightarrow> py_error + 'b" where
  "and_then r f = (case r of Inl e \<Rightarrow> Inl e | Inr v \<Rightarrow> f v)"

definition py_truediv :: "real \<Rightarrow> real \<Rightarrow> py_error + real" where
  "py_truediv a b = (if b = 0 then Inl ZeroDivisionError else Inr (a / b))"

definition math_sqrt :: "real \<Rightarrow> py_error + real" where
  "math_sqrt x = (if x < 0 then Inl ValueError else Inr (sqrt x))"

definition math_log :: "real \<Rightarrow> py_error + real" where
  "math_log x = (if x \<le> 0 then Inl ValueError else Inr (ln x))"

definition np_index :: "real list \<Rightarrow> int \<Rightarrow> py_error + real" where
  \<comment> \<open>\<open>spectralData[k]\<close> on a one-dimensional array of \<open>len\<close> elements: \<open>k\<close> from
     \<open>- len\<close> to \<open>- 1\<close> reads from the end, any \<open>k\<close> beyond either end raises.\<close>
  "np_index spectralData k =
     (if 0 \<le> k \<and> k < int (length spectralData) then Inr (spectralData ! nat k)
      else if k < 0 \<and> - int (length spectralData) \<le> k
        then Inr (spectralData ! nat (int (length spectralData) + k))
      else Inl IndexError)"

definition py_range :: "int \<Rightarrow> int \<Rightarrow> int list" where
  \<comment> \<open>\<open>range(a, b)\<close>: the integers from \<open>a\<close> up to \<open>b - 1\<close>, empty when \<open>b \<le> a\<close>.\<close>
  "py_range a b = [a..b - 1]"

subsection \<open>The four internal methods\<close>

definition getCenterFrequency :: "int \<Rightarrow> real" where
  "getCenterFrequency filterBand =
     (if filterBand = 0 then 0
      else if filterBand \<ge> 1 \<and> filterBand \<le> 14 then (200.0 * real_of_int filterBand) / 3.0
      else (let exponent = real_of_int filterBand - 14.0;
                centerFrequency = 1.0711703 powr exponent
            in centerFrequency * 1073.4))"

definition getMagnitudeFactor :: "int \<Rightarrow> py_error + real" where
  "getMagnitudeFactor filterBand =
     (if filterBand \<ge> 1 \<and> filterBand \<le> 14 then Inr 0.015
      else if filterBand \<ge> 15 \<and> filterBand \<le> 48 then
        py_truediv 2.0 (getCenterFrequency (filterBand + 1) - getCenterFrequency (filterBand - 1))
      else Inr 0.0)"

definition getFilterParameter :: "int \<Rightarrow> int \<Rightarrow> int \<Rightarrow> int \<Rightarrow> py_error + real" where
  "getFilterParameter samplingRate binSize frequencyBand filterBand =
     and_then (py_truediv (real_of_int (frequencyBand * samplingRate)) (real_of_int binSize))
       (\<lambda>boundary.
          let prevCenterFrequency = getCenterFrequency (filterBand + 1);
              thisCenterFrequency = getCenterFrequency filterBand;
              nextCenterFrequency = getCenterFrequency (filterBand + 1)
          in if boundary \<ge> 0 \<and> boundary < prevCenterFrequency then Inr 0.0
             else if boundary \<ge> prevCenterFrequency \<and> boundary < thisCenterFrequency then
               and_then (py_truediv (boundary - prevCenterFrequency)
                                    (thisCenterFrequency - prevCenterFrequency))
                 (\<lambda>filterParameter.
                    and_then (getMagnitudeFactor filterBand)
                      (\<lambda>magnitudeFactor. Inr (filterParameter * magnitudeFactor)))
             else if boundary \<ge> thisCenterFrequency \<and> boundary < nextCenterFrequency then
               and_then (py_truediv (boundary - nextCenterFrequency)
                                    (thisCenterFrequency - nextCenterFrequency))
                 (\<lambda>filterParameter.
                    and_then (getMagnitudeFactor filterBand)
                      (\<lambda>magnitudeFactor. Inr (filterParameter * magnitudeFactor)))
             else if boundary \<ge> nextCenterFrequency \<and> boundary < real_of_int samplingRate then
               Inr 0.0
             else Inr 0.0)"

definition getNormalizationFactor :: "int \<Rightarrow> int \<Rightarrow> py_error + real" where
  "getNormalizationFactor numFilters m =
     (if m = 0 then and_then (py_truediv 1.0 (real_of_int numFilters)) math_sqrt
      else and_then (py_truediv 2.0 (real_of_int numFilters)) math_sqrt)"

subsection \<open>The coefficient: two nested loops\<close>

text \<open>
  \<open>innerLoopWith\<close> is the body of \<open>for k in range(0, binSize - 1)\<close>, run over the
  remaining values of \<open>k\<close> with the running \<open>innerSum\<close>; \<open>outerLoopWith\<close> is the body of
  \<open>for l in range(1, numFilters + 1)\<close> with the running \<open>outerSum\<close>; \<open>getCoefficientWith\<close>
  is the body of \<open>getCoefficient\<close>. An error of any step ends the loop with that error,
  as the exception does. The one call \<open>self.getFilterParameter(samplingRate, binSize, k, l)\<close>
  is the parameter \<open>weight\<close>, applied to \<open>k\<close> and \<open>l\<close>, so that the loops can be stated
  for any filter. \<open>getCoefficient\<close> is the method of the source: the body with
  \<open>getFilterParameter samplingRate binSize\<close> as the weight; \<open>innerLoop\<close> and
  \<open>outerLoop\<close> abbreviate its two loops.
\<close>

fun innerLoopWith ::
  "(int \<Rightarrow> int \<Rightarrow> py_error + real) \<Rightarrow> real list \<Rightarrow> int \<Rightarrow> int list \<Rightarrow> real \<Rightarrow> py_error + real" where
  "innerLoopWith weight spectralData l [] innerSum = Inr innerSum"
| "innerLoopWith weight spectralData l (k # ks) innerSum =
     (case np_index spectralData k of
        Inl e \<Rightarrow> Inl e
      | Inr x \<Rightarrow>
          (case weight k l of
             Inl e \<Rightarrow> Inl e
           | Inr w \<Rightarrow> innerLoopWith weight spectralData l ks (innerSum + \<bar>x * w\<bar>)))"

fun outerLoopWith ::
  "(int \<Rightarrow> int \<Rightarrow> py_error + real) \<Rightarrow> real list \<Rightarrow> int \<Rightarrow> int \<Rightarrow> int \<Rightarrow> int list \<Rightarrow> real
     \<Rightarrow> py_error + real" where
  "outerLoopWith weight spectralData numFilters binSize m [] outerSum = Inr outerSum"
| "outerLoopWith weight spectralData numFilters binSize m (l # ls) outerSum =
     (case innerLoopWith weight spectralData l (py_range 0 (binSize - 1)) 0.0 of
        Inl e \<Rightarrow> Inl e
      | Inr innerSum \<Rightarrow>
          (case (if innerSum > 0 then math_log innerSum else Inr innerSum) of
             Inl e \<Rightarrow> Inl e
           | Inr logSum \<Rightarrow>
               (case py_truediv (real_of_int m * pi) (real_of_int numFilters) of
                  Inl e \<Rightarrow> Inl e
                | Inr angle \<Rightarrow>
                    outerLoopWith weight spectralData numFilters binSize m ls
                      (outerSum + logSum * cos (angle * (real_of_int l - 0.5))))))"

definition getCoefficientWith ::
  "(int \<Rightarrow> int \<Rightarrow> py_error + real) \<Rightarrow> real list \<Rightarrow> int \<Rightarrow> int \<Rightarrow> int \<Rightarrow> py_error + real" where
  "getCoefficientWith weight spectralData numFilters binSize m =
     (if m \<ge> numFilters then Inr 0.0
      else and_then (getNormalizationFactor numFilters m)
             (\<lambda>result.
                and_then (outerLoopWith weight spectralData numFilters binSize m
                            (py_range 1 (numFilters + 1)) 0.0)
                  (\<lambda>outerSum. Inr (result * outerSum))))"

abbreviation innerLoop :: "real list \<Rightarrow> int \<Rightarrow> int \<Rightarrow> int \<Rightarrow> int list \<Rightarrow> real \<Rightarrow> py_error + real" where
  "innerLoop spectralData samplingRate binSize l ks innerSum \<equiv>
     innerLoopWith (getFilterParameter samplingRate binSize) spectralData l ks innerSum"

abbreviation outerLoop ::
  "real list \<Rightarrow> int \<Rightarrow> int \<Rightarrow> int \<Rightarrow> int \<Rightarrow> int list \<Rightarrow> real \<Rightarrow> py_error + real" where
  "outerLoop spectralData samplingRate numFilters binSize m ls outerSum \<equiv>
     outerLoopWith (getFilterParameter samplingRate binSize) spectralData numFilters binSize m
       ls outerSum"

definition getCoefficient :: "real list \<Rightarrow> int \<Rightarrow> int \<Rightarrow> int \<Rightarrow> int \<Rightarrow> py_error + real" where
  "getCoefficient spectralData samplingRate numFilters binSize m =
     getCoefficientWith (getFilterParameter samplingRate binSize) spectralData numFilters binSize m"

subsection \<open>The sums of the specification\<close>

text \<open>
  The specification describes what the two loops compute as closed sums. These
  definitions follow its words, to be compared with the loops and with
  \<open>getNormalizationFactor\<close> above: the energy of band \<open>l\<close> over the bins \<open>0\<close> to
  \<open>binSize - 2\<close> for filter weights \<open>w k l\<close>, its clamped logarithm, the sum over the bands
  \<open>1\<close> to \<open>numFilters\<close>, and the normalization constant. \<open>filterWeight\<close> is the weight
  the source uses: the value that \<open>getFilterParameter\<close> returns.
\<close>

definition innerSum_spec :: "(int \<Rightarrow> int \<Rightarrow> real) \<Rightarrow> real list \<Rightarrow> int \<Rightarrow> int \<Rightarrow> real" where
  "innerSum_spec w spectralData binSize l =
     (\<Sum>k = 0..binSize - 2. \<bar>spectralData ! nat k * w k l\<bar>)"

definition logEnergy_spec :: "real \<Rightarrow> real" where
  "logEnergy_spec innerSum = (if innerSum > 0 then ln innerSum else 0.0)"

definition outerSum_spec :: "(int \<Rightarrow> int \<Rightarrow> real) \<Rightarrow> real list \<Rightarrow> int \<Rightarrow> int \<Rightarrow> int \<Rightarrow> real" where
  "outerSum_spec w spectralData numFilters binSize m =
     (\<Sum>l = 1..numFilters.
        logEnergy_spec (innerSum_spec w spectralData binSize l) *
        cos ((real_of_int m * pi / real_of_int numFilters) * (real_of_int l - 0.5)))"

definition normalization_spec :: "int \<Rightarrow> int \<Rightarrow> real" where
  "normalization_spec numFilters m =
     (if m = 0 then sqrt (1 / real_of_int numFilters) else sqrt (2 / real_of_int numFilters))"

definition filterWeight :: "int \<Rightarrow> int \<Rightarrow> int \<Rightarrow> int \<Rightarrow> real" where
  "filterWeight samplingRate binSize k l = projr (getFilterParameter samplingRate binSize k l)"

section \<open>Properties\<close>

subsection \<open>Sequencing of results\<close>

lemma and_then_Inr [simp]: "and_then (Inr v) f = f v"
  by (simp add: and_then_def)

lemma and_then_Inl [simp]: "and_then (Inl e) f = Inl e"
  by (simp add: and_then_def)

lemma getCenterFrequency_exponential:
  "l < 0 \<or> 14 < l \<Longrightarrow> getCenterFrequency l = 1073.4 * 1.0711703 powr (real_of_int l - 14)"
  by (auto simp add: getCenterFrequency_def Let_def)

lemma getCenterFrequency_linear:
  "1 \<le> l \<Longrightarrow> l \<le> 14 \<Longrightarrow> getCenterFrequency l = 200 * real_of_int l / 3"
  by (simp add: getCenterFrequency_def)

lemma getCenterFrequency_nonneg: "0 \<le> getCenterFrequency l"
  by (simp add: getCenterFrequency_def Let_def)

lemma getCenterFrequency_step:
  assumes "l \<noteq> - 1"
  shows "getCenterFrequency l < getCenterFrequency (l + 1)"
proof -
  consider "l \<le> - 2" | "l = 0" | "1 \<le> l \<and> l \<le> 13" | "l = 14" | "15 \<le> l"
    using assms by linarith
  then show ?thesis
  proof cases
    case 1
    then show ?thesis
      by (simp add: getCenterFrequency_exponential)
  next
    case 2
    then show ?thesis by (simp add: getCenterFrequency_def)
  next
    case 3
    then show ?thesis by (simp add: getCenterFrequency_linear)
  next
    case 4
    then show ?thesis
      by (simp add: getCenterFrequency_exponential getCenterFrequency_linear)
  next
    case 5
    then show ?thesis
      by (simp add: getCenterFrequency_exponential)
  qed
qed

subsection \<open>Spacing of the centre frequencies, and what follows for the filter\<close>

lemma getCenterFrequency_gap:
  assumes "15 \<le> l"
  shows "getCenterFrequency (l - 1) < getCenterFrequency (l + 1)"
proof -
  have "getCenterFrequency (l - 1) < getCenterFrequency ((l - 1) + 1)"
    using assms by (intro getCenterFrequency_step) simp
  moreover have "getCenterFrequency l < getCenterFrequency (l + 1)"
    using assms by (intro getCenterFrequency_step) simp
  ultimately show ?thesis by simp
qed

lemma getMagnitudeFactor_eq:
  "getMagnitudeFactor l =
     Inr (if 1 \<le> l \<and> l \<le> 14 then 0.015
          else if 15 \<le> l \<and> l \<le> 48
            then 2 / (getCenterFrequency (l + 1) - getCenterFrequency (l - 1))
          else 0)"
proof (cases "15 \<le> l \<and> l \<le> 48")
  case True
  then have "getCenterFrequency (l + 1) - getCenterFrequency (l - 1) \<noteq> 0"
    using getCenterFrequency_gap [of l] by simp
  with True show ?thesis
    by (simp add: getMagnitudeFactor_def py_truediv_def)
next
  case False
  then show ?thesis
    by (auto simp add: getMagnitudeFactor_def)
qed

lemma getMagnitudeFactor_total: "\<exists>v. getMagnitudeFactor l = Inr v"
  unfolding getMagnitudeFactor_eq by blast

lemma getMagnitudeFactor_outside:
  "l < 1 \<or> 48 < l \<Longrightarrow> getMagnitudeFactor l = Inr 0"
  by (auto simp add: getMagnitudeFactor_def)

lemma getFilterParameter_zero:
  assumes "binSize \<noteq> 0"
  shows "getFilterParameter samplingRate binSize k l = Inr 0"
proof (cases "l = - 1")
  case True
  have prev: "getCenterFrequency (l + 1) = 0"
    using True by (simp add: getCenterFrequency_def)
  have mf: "getMagnitudeFactor l = Inr 0"
    using True by (simp add: getMagnitudeFactor_outside)
  show ?thesis
    using assms getCenterFrequency_nonneg [of l]
    by (auto simp add: getFilterParameter_def py_truediv_def Let_def prev mf)
next
  case False
  have lt: "getCenterFrequency l < getCenterFrequency (l + 1)"
    using False by (rule getCenterFrequency_step)
  show ?thesis
    using assms lt getCenterFrequency_nonneg [of l]
    by (auto simp add: getFilterParameter_def py_truediv_def Let_def)
qed

lemma getFilterParameter_total:
  "binSize \<noteq> 0 \<Longrightarrow> \<exists>w. getFilterParameter samplingRate binSize k l = Inr w"
  by (simp add: getFilterParameter_zero)

lemma getCenterFrequency_mono:
  assumes "0 \<le> a" and "a \<le> b"
  shows "getCenterFrequency a \<le> getCenterFrequency b"
  using \<open>a \<le> b\<close>
proof (induction b rule: int_ge_induct)
  case base
  show ?case by simp
next
  case (step i)
  have "getCenterFrequency i < getCenterFrequency (i + 1)"
    using assms(1) step.hyps by (intro getCenterFrequency_step) simp
  with step.IH show ?case by simp
qed

lemma exponent_nat:
  assumes "14 < l"
  shows "(1.0711703::real) powr (real_of_int l - 14) = 1.0711703 ^ nat (l - 14)"
proof -
  have e: "real_of_int l - 14 = real (nat (l - 14))"
    using assms by simp
  have "(1.0711703::real) powr real (nat (l - 14)) = 1.0711703 ^ nat (l - 14)"
    by (rule powr_realpow) simp
  then show ?thesis
    by (simp only: e)
qed

subsection \<open>Centre frequency\<close>

text \<open>
  C3. For every integer band index \<open>l\<close>, \<open>getCenterFrequency\<close> returns \<open>0\<close> when
  \<open>l = 0\<close>, \<open>(200 * l) / 3\<close> when \<open>1 \<le> l \<le> 14\<close>, and \<open>1073.4 * 1.0711703 ^ (l - 14)\<close>
  when \<open>l > 14\<close>. The function has no error branch, and a negative \<open>l\<close> takes the
  exponential branch as well, with the negative exponent \<open>l - 14\<close>.
\<close>

theorem getCenterFrequency_piecewise:
  "(l = 0 \<longrightarrow> getCenterFrequency l = 0) \<and>
   (1 \<le> l \<and> l \<le> 14 \<longrightarrow> getCenterFrequency l = (200.0 * real_of_int l) / 3.0) \<and>
   (14 < l \<longrightarrow> getCenterFrequency l = 1073.4 * 1.0711703 ^ nat (l - 14)) \<and>
   (l < 0 \<longrightarrow> getCenterFrequency l = 1073.4 * 1.0711703 powr (real_of_int l - 14))"
proof (intro conjI impI)
  assume "l = 0"
  then show "getCenterFrequency l = 0"
    by (simp add: getCenterFrequency_def)
next
  assume "1 \<le> l \<and> l \<le> 14"
  then show "getCenterFrequency l = (200.0 * real_of_int l) / 3.0"
    by (simp add: getCenterFrequency_def)
next
  assume "14 < l"
  then have "getCenterFrequency l = 1073.4 * 1.0711703 powr (real_of_int l - 14)"
    by (simp add: getCenterFrequency_exponential)
  then show "getCenterFrequency l = 1073.4 * 1.0711703 ^ nat (l - 14)"
    by (simp only: exponent_nat [OF \<open>14 < l\<close>])
next
  assume "l < 0"
  then show "getCenterFrequency l = 1073.4 * 1.0711703 powr (real_of_int l - 14)"
    by (simp add: getCenterFrequency_exponential)
qed

theorem getCenterFrequency_piecewise_witness:
  "getCenterFrequency 0 = 0 \<and> getCenterFrequency 1 = 200 / 3 \<and>
   getCenterFrequency 15 = 1073.4 * 1.0711703 ^ 1 \<and>
   getCenterFrequency (- 1) = 1073.4 * 1.0711703 powr (- 15)"
proof -
  have "getCenterFrequency 0 = 0"
    using getCenterFrequency_piecewise [of 0] by simp
  moreover have "getCenterFrequency 1 = 200 / 3"
    using getCenterFrequency_piecewise [of 1] by simp
  moreover have "getCenterFrequency 15 = 1073.4 * 1.0711703 ^ 1"
    using getCenterFrequency_piecewise [of 15] by simp
  moreover have "getCenterFrequency (- 1) = 1073.4 * 1.0711703 powr (- 15)"
    using getCenterFrequency_piecewise [of "- 1"] by simp
  ultimately show ?thesis by blast
qed

text \<open>
  C8. \<open>getCenterFrequency\<close> is non-decreasing on the band indices from \<open>0\<close> to \<open>62\<close>:
  whenever \<open>0 \<le> l1 < l2 \<le> 62\<close>, the centre frequency of \<open>l1\<close> is at most that of
  \<open>l2\<close>; this includes the junctions from \<open>0\<close> to \<open>1\<close> and from \<open>14\<close> to \<open>15\<close>.
\<close>

theorem getCenterFrequency_monotone:
  "\<forall>l1 l2. 0 \<le> l1 \<and> l1 < l2 \<and> l2 \<le> 62 \<longrightarrow> getCenterFrequency l1 \<le> getCenterFrequency l2"
  by (simp add: getCenterFrequency_mono)

theorem getCenterFrequency_monotone_witness:
  "(0::int) \<le> 14 \<and> (14::int) < 15 \<and> (15::int) \<le> 62 \<and> getCenterFrequency 14 \<le> getCenterFrequency 15 \<and>
   getCenterFrequency 0 \<le> getCenterFrequency 1"
  using getCenterFrequency_monotone by simp

subsection \<open>Magnitude factor\<close>

text \<open>
  C6. For every integer band index \<open>l\<close>, \<open>getMagnitudeFactor\<close> returns \<open>0.015\<close> when
  \<open>1 \<le> l \<le> 14\<close>, \<open>2 / (getCenterFrequency (l + 1) - getCenterFrequency (l - 1))\<close> when
  \<open>15 \<le> l \<le> 48\<close>, and \<open>0\<close> for every other \<open>l\<close>. It never raises: in the middle case
  the divisor is not zero.
\<close>

theorem getMagnitudeFactor_piecewise:
  "(1 \<le> l \<and> l \<le> 14 \<longrightarrow> getMagnitudeFactor l = Inr 0.015) \<and>
   (15 \<le> l \<and> l \<le> 48 \<longrightarrow>
      getMagnitudeFactor l = Inr (2.0 / (getCenterFrequency (l + 1) - getCenterFrequency (l - 1)))) \<and>
   (l < 1 \<or> 48 < l \<longrightarrow> getMagnitudeFactor l = Inr 0.0)"
  by (auto simp add: getMagnitudeFactor_eq)

theorem getMagnitudeFactor_piecewise_witness:
  "getMagnitudeFactor 14 = Inr 0.015 \<and>
   getMagnitudeFactor 15 = Inr (2.0 / (getCenterFrequency 16 - getCenterFrequency 14)) \<and>
   getMagnitudeFactor 48 = Inr (2.0 / (getCenterFrequency 49 - getCenterFrequency 47)) \<and>
   getMagnitudeFactor 0 = Inr 0 \<and> getMagnitudeFactor 49 = Inr 0 \<and> getMagnitudeFactor (- 3) = Inr 0"
  using getMagnitudeFactor_piecewise [of 14] getMagnitudeFactor_piecewise [of 15]
    getMagnitudeFactor_piecewise [of 48] getMagnitudeFactor_piecewise [of 0]
    getMagnitudeFactor_piecewise [of 49] getMagnitudeFactor_piecewise [of "- 3"]
  by simp

subsection \<open>Normalization factor\<close>

text \<open>
  C7. For every positive \<open>numFilters\<close> and every integer \<open>m\<close>,
  \<open>getNormalizationFactor\<close> returns \<open>sqrt (1 / numFilters)\<close> when \<open>m = 0\<close> and
  \<open>sqrt (2 / numFilters)\<close> otherwise, in particular for every \<open>m > 0\<close>; and the first
  value is returned exactly when \<open>m = 0\<close>.
\<close>

theorem getNormalizationFactor_value:
  assumes "0 < numFilters"
  shows "getNormalizationFactor numFilters m =
           Inr (if m = 0 then sqrt (1 / real_of_int numFilters)
                else sqrt (2 / real_of_int numFilters)) \<and>
         (getNormalizationFactor numFilters m = Inr (sqrt (1 / real_of_int numFilters))
            \<longleftrightarrow> m = 0)"
proof -
  have nz: "real_of_int numFilters \<noteq> 0" and pos: "0 < real_of_int numFilters"
    using assms by simp_all
  have val: "getNormalizationFactor numFilters m =
           Inr (if m = 0 then sqrt (1 / real_of_int numFilters)
                else sqrt (2 / real_of_int numFilters))"
    using pos by (simp add: getNormalizationFactor_def py_truediv_def math_sqrt_def)
  have "sqrt (2 / real_of_int numFilters) \<noteq> sqrt (1 / real_of_int numFilters)"
    using pos by (simp add: field_simps)
  with val show ?thesis by simp
qed

theorem getNormalizationFactor_value_witness:
  "getNormalizationFactor 48 0 = Inr (sqrt (1 / 48)) \<and>
   getNormalizationFactor 48 3 = Inr (sqrt (2 / 48)) \<and>
   getNormalizationFactor 1 0 = Inr 1 \<and>
   getNormalizationFactor 16 0 = Inr (1 / 4) \<and>
   getNormalizationFactor 256 5 = Inr (sqrt (2 / 256))"
  using getNormalizationFactor_value [of 48 0] getNormalizationFactor_value [of 48 3]
    getNormalizationFactor_value [of 1 0] getNormalizationFactor_value [of 16 0]
    getNormalizationFactor_value [of 256 5]
  by (simp add: real_sqrt_divide)

subsection \<open>The coefficient\<close>

text \<open>
  C5. Whenever \<open>m \<ge> numFilters\<close>, \<open>getCoefficient\<close> returns \<open>0.0\<close>, whatever the
  spectral frame, the sampling rate and the bin size are: the loops over bands and bins
  are not run, so a frame that is too short for \<open>binSize\<close> raises nothing either.
\<close>

theorem getCoefficient_sentinel:
  "numFilters \<le> m \<Longrightarrow> getCoefficient spectralData samplingRate numFilters binSize m = Inr 0.0"
  by (simp add: getCoefficient_def getCoefficientWith_def)

theorem getCoefficient_sentinel_witness:
  "getCoefficient [] 16000 48 5 48 = Inr 0 \<and> getCoefficient [1, 1] 16000 48 2 53 = Inr 0"
  using getCoefficient_sentinel [of 48 48 "[]" 16000 5]
    getCoefficient_sentinel [of 48 53 "[1, 1]" 16000 2]
  by simp

subsection \<open>The loops compute the sums of the specification\<close>

lemma set_py_range: "set (py_range a b) = {a..b - 1}"
  by (simp add: py_range_def)

lemma distinct_py_range: "distinct (py_range a b)"
  by (simp add: py_range_def)

lemma sum_list_py_range:
  fixes f :: "int \<Rightarrow> real"
  shows "sum_list (map f (py_range a b)) = sum f {a..b - 1}"
  by (simp add: sum_list_distinct_conv_sum_set distinct_py_range set_py_range)

lemma np_index_in_range:
  "0 \<le> k \<Longrightarrow> k < int (length spectralData) \<Longrightarrow> np_index spectralData k = Inr (spectralData ! nat k)"
  by (simp add: np_index_def)

lemma getFilterParameter_filterWeight:
  "binSize \<noteq> 0 \<Longrightarrow>
     getFilterParameter samplingRate binSize k l = Inr (filterWeight samplingRate binSize k l)"
  by (simp add: filterWeight_def getFilterParameter_zero)

lemma innerLoopWith_sum:
  assumes "\<forall>k\<in>set ks. 0 \<le> k \<and> k < int (length spectralData) \<and> weight k l = Inr (w k l)"
  shows "innerLoopWith weight spectralData l ks acc =
           Inr (acc + (\<Sum>k\<leftarrow>ks. \<bar>spectralData ! nat k * w k l\<bar>))"
  using assms
proof (induction ks arbitrary: acc)
  case Nil
  show ?case by simp
next
  case (Cons k ks)
  have wk: "weight k l = Inr (w k l)"
    using Cons.prems by simp
  have idx: "np_index spectralData k = Inr (spectralData ! nat k)"
    using Cons.prems by (simp add: np_index_in_range)
  have "innerLoopWith weight spectralData l (k # ks) acc =
          innerLoopWith weight spectralData l ks (acc + \<bar>spectralData ! nat k * w k l\<bar>)"
    by (simp add: idx wk)
  also have "\<dots> = Inr ((acc + \<bar>spectralData ! nat k * w k l\<bar>) +
                 (\<Sum>k\<leftarrow>ks. \<bar>spectralData ! nat k * w k l\<bar>))"
    using Cons.prems by (intro Cons.IH) simp
  finally show ?case
    by simp
qed

lemma innerLoopWith_spec:
  assumes "1 \<le> binSize" and "binSize - 1 \<le> int (length spectralData)"
    and "\<forall>k. 0 \<le> k \<and> k \<le> binSize - 2 \<longrightarrow> weight k l = Inr (w k l)"
  shows "innerLoopWith weight spectralData l (py_range 0 (binSize - 1)) 0 =
           Inr (innerSum_spec w spectralData binSize l)"
proof -
  have "\<forall>k\<in>set (py_range 0 (binSize - 1)).
          0 \<le> k \<and> k < int (length spectralData) \<and> weight k l = Inr (w k l)"
    using assms by (simp add: set_py_range)
  then have "innerLoopWith weight spectralData l (py_range 0 (binSize - 1)) 0 =
           Inr (0 + (\<Sum>k\<leftarrow>py_range 0 (binSize - 1). \<bar>spectralData ! nat k * w k l\<bar>))"
    by (rule innerLoopWith_sum)
  then show ?thesis
    by (simp add: sum_list_py_range innerSum_spec_def)
qed

lemma innerSum_spec_nonneg: "0 \<le> innerSum_spec w spectralData binSize l"
  unfolding innerSum_spec_def by (rule sum_nonneg) simp

lemma log_step:
  assumes "0 \<le> s"
  shows "(if s > 0 then math_log s else Inr s) = Inr (logEnergy_spec s)"
  using assms by (auto simp add: math_log_def logEnergy_spec_def)

lemma outerLoopWith_sum:
  assumes "numFilters \<noteq> 0" and "1 \<le> binSize" and "binSize - 1 \<le> int (length spectralData)"
    and "\<forall>l\<in>set ls. \<forall>k. 0 \<le> k \<and> k \<le> binSize - 2 \<longrightarrow> weight k l = Inr (w k l)"
  shows "outerLoopWith weight spectralData numFilters binSize m ls acc =
           Inr (acc + (\<Sum>l\<leftarrow>ls.
                  logEnergy_spec (innerSum_spec w spectralData binSize l) *
                  cos ((real_of_int m * pi / real_of_int numFilters) * (real_of_int l - 0.5))))"
  using assms(4)
proof (induction ls arbitrary: acc)
  case Nil
  show ?case by simp
next
  case (Cons l ls)
  have wl: "\<forall>k. 0 \<le> k \<and> k \<le> binSize - 2 \<longrightarrow> weight k l = Inr (w k l)"
    using Cons.prems by simp
  have inner: "innerLoopWith weight spectralData l (py_range 0 (binSize - 1)) 0.0 =
                 Inr (innerSum_spec w spectralData binSize l)"
    using innerLoopWith_spec [where weight = weight and w = w, OF assms(2,3) wl] by simp
  have lg: "(if innerSum_spec w spectralData binSize l > 0
             then math_log (innerSum_spec w spectralData binSize l)
             else Inr (innerSum_spec w spectralData binSize l)) =
            Inr (logEnergy_spec (innerSum_spec w spectralData binSize l))"
    by (rule log_step) (rule innerSum_spec_nonneg)
  have dv: "py_truediv (real_of_int m * pi) (real_of_int numFilters) =
              Inr (real_of_int m * pi / real_of_int numFilters)"
    using assms(1) by (simp add: py_truediv_def)
  have "outerLoopWith weight spectralData numFilters binSize m (l # ls) acc =
          outerLoopWith weight spectralData numFilters binSize m ls
            (acc + logEnergy_spec (innerSum_spec w spectralData binSize l) *
                   cos ((real_of_int m * pi / real_of_int numFilters) * (real_of_int l - 0.5)))"
    by (simp only: outerLoopWith.simps inner lg dv sum.case)
  moreover have "\<forall>l\<in>set ls. \<forall>k. 0 \<le> k \<and> k \<le> binSize - 2 \<longrightarrow> weight k l = Inr (w k l)"
    using Cons.prems by simp
  ultimately show ?case
    by (simp add: Cons.IH)
qed

lemma outerLoopWith_spec:
  assumes "numFilters \<noteq> 0" and "1 \<le> binSize" and "binSize - 1 \<le> int (length spectralData)"
    and "\<forall>k l. 0 \<le> k \<and> k \<le> binSize - 2 \<and> 1 \<le> l \<and> l \<le> numFilters \<longrightarrow> weight k l = Inr (w k l)"
  shows "outerLoopWith weight spectralData numFilters binSize m (py_range 1 (numFilters + 1)) 0 =
           Inr (outerSum_spec w spectralData numFilters binSize m)"
proof -
  have "\<forall>l\<in>set (py_range 1 (numFilters + 1)).
          \<forall>k. 0 \<le> k \<and> k \<le> binSize - 2 \<longrightarrow> weight k l = Inr (w k l)"
    using assms(4) by (simp add: set_py_range)
  with assms(1,2,3)
  have "outerLoopWith weight spectralData numFilters binSize m (py_range 1 (numFilters + 1)) 0 =
           Inr (0 + (\<Sum>l\<leftarrow>py_range 1 (numFilters + 1).
                  logEnergy_spec (innerSum_spec w spectralData binSize l) *
                  cos ((real_of_int m * pi / real_of_int numFilters) * (real_of_int l - 0.5))))"
    by (rule outerLoopWith_sum)
  then show ?thesis
    by (simp add: sum_list_py_range outerSum_spec_def)
qed

lemma getNormalizationFactor_pos:
  assumes "1 \<le> numFilters"
  shows "getNormalizationFactor numFilters m = Inr (normalization_spec numFilters m)"
  using assms
  by (simp add: getNormalizationFactor_def py_truediv_def math_sqrt_def normalization_spec_def)

lemma getCoefficientWith_spec:
  assumes "m < numFilters" and "1 \<le> numFilters" and "1 \<le> binSize"
    and "binSize - 1 \<le> int (length spectralData)"
    and "\<forall>k l. 0 \<le> k \<and> k \<le> binSize - 2 \<and> 1 \<le> l \<and> l \<le> numFilters \<longrightarrow> weight k l = Inr (w k l)"
  shows "getCoefficientWith weight spectralData numFilters binSize m =
           Inr (normalization_spec numFilters m *
                outerSum_spec w spectralData numFilters binSize m)"
proof -
  have nz: "numFilters \<noteq> 0"
    using assms(2) by simp
  have "outerLoopWith weight spectralData numFilters binSize m (py_range 1 (numFilters + 1)) 0 =
           Inr (outerSum_spec w spectralData numFilters binSize m)"
    using nz assms(3,4,5) by (rule outerLoopWith_spec)
  then show ?thesis
    using assms(1) by (simp add: getCoefficientWith_def getNormalizationFactor_pos [OF assms(2)])
qed

lemma getCoefficient_spec:
  assumes "m < numFilters" and "1 \<le> numFilters" and "1 \<le> binSize"
    and "binSize - 1 \<le> int (length spectralData)"
  shows "getCoefficient spectralData samplingRate numFilters binSize m =
           Inr (normalization_spec numFilters m *
                outerSum_spec (filterWeight samplingRate binSize) spectralData numFilters binSize m)"
proof -
  have "binSize \<noteq> 0"
    using assms(3) by simp
  then have "\<forall>k l. 0 \<le> k \<and> k \<le> binSize - 2 \<and> 1 \<le> l \<and> l \<le> numFilters \<longrightarrow>
               getFilterParameter samplingRate binSize k l = Inr (filterWeight samplingRate binSize k l)"
    by (simp add: getFilterParameter_filterWeight)
  with assms show ?thesis
    unfolding getCoefficient_def by (rule getCoefficientWith_spec)
qed

lemma innerLoopWith_agree:
  assumes "\<forall>k\<in>set ks. np_index spectralData k = np_index spectralData' k"
  shows "innerLoopWith weight spectralData l ks acc =
         innerLoopWith weight spectralData' l ks acc"
  using assms by (induction ks arbitrary: acc) (simp_all split: sum.splits)

lemma outerLoopWith_agree:
  assumes "\<And>l. innerLoopWith weight spectralData l (py_range 0 (binSize - 1)) 0 =
                innerLoopWith weight spectralData' l (py_range 0 (binSize - 1)) 0"
  shows "outerLoopWith weight spectralData numFilters binSize m ls acc =
         outerLoopWith weight spectralData' numFilters binSize m ls acc"
  by (induction ls arbitrary: acc) (simp_all add: assms split: sum.splits)

lemma getCoefficientWith_agree:
  assumes "binSize - 1 \<le> int (length spectralData)" and "binSize - 1 \<le> int (length spectralData')"
    and "\<forall>i<nat (binSize - 1). spectralData ! i = spectralData' ! i"
  shows "getCoefficientWith weight spectralData numFilters binSize m =
         getCoefficientWith weight spectralData' numFilters binSize m"
proof -
  have "np_index spectralData k = np_index spectralData' k"
    if "k \<in> set (py_range 0 (binSize - 1))" for k
  proof -
    from that have k: "0 \<le> k" "k \<le> binSize - 2"
      by (simp_all add: set_py_range)
    then have "nat k < nat (binSize - 1)"
      by simp
    with assms(3) have "spectralData ! nat k = spectralData' ! nat k"
      by blast
    with k assms(1,2) show ?thesis
      by (simp add: np_index_def)
  qed
  then have "innerLoopWith weight spectralData l (py_range 0 (binSize - 1)) 0 =
             innerLoopWith weight spectralData' l (py_range 0 (binSize - 1)) 0" for l
    by (intro innerLoopWith_agree) blast
  then have "outerLoopWith weight spectralData numFilters binSize m ls acc =
             outerLoopWith weight spectralData' numFilters binSize m ls acc" for ls acc
    by (rule outerLoopWith_agree)
  then show ?thesis
    by (simp add: getCoefficientWith_def)
qed

lemma innerSum_spec_zero:
  assumes "1 \<le> binSize" and "length spectralData = nat binSize"
    and "\<forall>x\<in>set spectralData. x = 0"
  shows "innerSum_spec w spectralData binSize l = 0"
proof -
  have "spectralData ! nat k = 0" if "k \<in> {0..binSize - 2}" for k
  proof -
    have "nat k < length spectralData"
      using that assms(1,2) by simp
    then have "spectralData ! nat k \<in> set spectralData"
      by (rule nth_mem)
    with assms(3) show ?thesis by blast
  qed
  then show ?thesis
    by (simp add: innerSum_spec_def)
qed

text \<open>
  C1. For \<open>0 \<le> m < numFilters\<close>, \<open>numFilters \<ge> 1\<close>, \<open>binSize \<ge> 1\<close> and a frame of
  length \<open>binSize\<close>, \<open>getCoefficient\<close> returns the normalization constant times the
  sum over the bands \<open>l\<close> from \<open>1\<close> to \<open>numFilters\<close> of \<open>L l * cos ((m * pi / numFilters) * (l - 0.5))\<close>,
  where \<open>L l\<close> is the logarithm of the band energy when that energy is positive and
  \<open>0\<close> otherwise. It returns a value: the logarithm is never taken of a number that is
  not positive, and no other step raises. \<open>getCoefficient\<close> is its body run with the
  weights of \<open>getFilterParameter\<close>, on every input; and the body computes this sum for
  every filter whose weights \<open>w k l\<close> are returned without error on the bins and bands
  of the loops, so the formula does not rest on the weights the source happens to use.
\<close>

theorem getCoefficient_formula:
  "getCoefficient spectralData samplingRate numFilters binSize m =
     getCoefficientWith (getFilterParameter samplingRate binSize) spectralData numFilters binSize m \<and>
   (0 \<le> m \<and> m < numFilters \<and> 1 \<le> numFilters \<and> 1 \<le> binSize \<and>
    length spectralData = nat binSize \<longrightarrow>
      getCoefficient spectralData samplingRate numFilters binSize m =
        Inr (normalization_spec numFilters m *
             outerSum_spec (filterWeight samplingRate binSize) spectralData numFilters binSize m) \<and>
      ((\<forall>k l. 0 \<le> k \<and> k \<le> binSize - 2 \<and> 1 \<le> l \<and> l \<le> numFilters \<longrightarrow>
                weight k l = Inr (w k l)) \<longrightarrow>
         getCoefficientWith weight spectralData numFilters binSize m =
           Inr (normalization_spec numFilters m *
                (\<Sum>l = 1..numFilters.
                   (let innerSum = (\<Sum>k = 0..binSize - 2. \<bar>spectralData ! nat k * w k l\<bar>)
                    in if innerSum > 0 then ln innerSum else 0.0) *
                   cos ((real_of_int m * pi / real_of_int numFilters) * (real_of_int l - 0.5))))))"
proof (intro conjI impI)
  show "getCoefficient spectralData samplingRate numFilters binSize m =
     getCoefficientWith (getFilterParameter samplingRate binSize) spectralData numFilters binSize m"
    by (simp add: getCoefficient_def)
next
  assume pre: "0 \<le> m \<and> m < numFilters \<and> 1 \<le> numFilters \<and> 1 \<le> binSize \<and>
    length spectralData = nat binSize"
  then have len: "binSize - 1 \<le> int (length spectralData)"
    by simp
  show "getCoefficient spectralData samplingRate numFilters binSize m =
        Inr (normalization_spec numFilters m *
             outerSum_spec (filterWeight samplingRate binSize) spectralData numFilters binSize m)"
    using pre len by (intro getCoefficient_spec) simp_all
  assume total: "\<forall>k l. 0 \<le> k \<and> k \<le> binSize - 2 \<and> 1 \<le> l \<and> l \<le> numFilters \<longrightarrow>
                weight k l = Inr (w k l)"
  have "getCoefficientWith weight spectralData numFilters binSize m =
           Inr (normalization_spec numFilters m *
                outerSum_spec w spectralData numFilters binSize m)"
    using pre len total by (intro getCoefficientWith_spec) simp_all
  then show "getCoefficientWith weight spectralData numFilters binSize m =
           Inr (normalization_spec numFilters m *
                (\<Sum>l = 1..numFilters.
                   (let innerSum = (\<Sum>k = 0..binSize - 2. \<bar>spectralData ! nat k * w k l\<bar>)
                    in if innerSum > 0 then ln innerSum else 0.0) *
                   cos ((real_of_int m * pi / real_of_int numFilters) * (real_of_int l - 0.5))))"
    by (simp add: outerSum_spec_def innerSum_spec_def logEnergy_spec_def Let_def)
qed

theorem getCoefficient_formula_witness:
  "getCoefficient [1, 1] 16000 48 2 0 =
     Inr (normalization_spec 48 0 * outerSum_spec (filterWeight 16000 2) [1, 1] 48 2 0) \<and>
   getCoefficientWith (\<lambda>k l. Inr 1) [2, 7] 1 2 0 = Inr (ln 2) \<and>
   getCoefficientWith (\<lambda>k l. Inr (real_of_int l)) [2, 3, 100] 2 3 0 =
     Inr (sqrt (1 / 2) * (ln 5 + ln 10))"
proof -
  have "getCoefficient [1, 1] 16000 48 2 0 =
     Inr (normalization_spec 48 0 * outerSum_spec (filterWeight 16000 2) [1, 1] 48 2 0)"
    using getCoefficient_formula [where spectralData = "[1, 1]" and samplingRate = 16000
        and numFilters = 48 and binSize = 2 and m = 0 and weight = "\<lambda>k l. Inr 1"
        and w = "\<lambda>k l. 1", THEN conjunct2]
    by simp
  moreover have "getCoefficientWith (\<lambda>k l. Inr 1) [2, 7] 1 2 0 = Inr (ln 2)"
    using getCoefficient_formula [where spectralData = "[2, 7]" and samplingRate = 16000
        and numFilters = 1 and binSize = 2 and m = 0 and weight = "\<lambda>k l. Inr 1"
        and w = "\<lambda>k l. 1", THEN conjunct2]
    by (simp add: normalization_spec_def)
  moreover have "getCoefficientWith (\<lambda>k l. Inr (real_of_int l)) [2, 3, 100] 2 3 0 =
     Inr (sqrt (1 / 2) * (ln 5 + ln 10))"
  proof -
    have bands: "{1..2::int} = {1, 2}" and bins: "{0..1::int} = {0, 1}"
      by auto
    show ?thesis
      using getCoefficient_formula [where spectralData = "[2, 3, 100]" and samplingRate = 16000
          and numFilters = 2 and binSize = 3 and m = 0
          and weight = "\<lambda>k l. Inr (real_of_int l)" and w = "\<lambda>k l. real_of_int l",
          THEN conjunct2]
      by (simp add: normalization_spec_def bands bins)
  qed
  ultimately show ?thesis by blast
qed

text \<open>
  C4. In \<open>getCoefficient\<close> the energy of every band \<open>l\<close> is the sum over the bins
  \<open>k\<close> from \<open>0\<close> to \<open>binSize - 2\<close> of \<open>\<bar>spectralData[k] * getFilterParameter(samplingRate, binSize, k, l)\<bar>\<close>.
  The last bin \<open>binSize - 1\<close> is never read: a frame need only have \<open>binSize - 1\<close>
  elements for the coefficient to be computed, and two frames that agree on the indices
  below \<open>binSize - 1\<close>, whatever their lengths from \<open>binSize - 1\<close> on, give the same
  result, for every \<open>numFilters\<close> and \<open>m\<close>. Both hold for the body run with any filter
  weights \<open>w k l\<close>, where the band energies depend on the frame, and so for the weights
  of \<open>getFilterParameter\<close>.
\<close>

theorem getCoefficient_last_bin_unread:
  assumes "1 \<le> binSize"
    and "binSize - 1 \<le> int (length spectralData)" and "binSize - 1 \<le> int (length spectralData')"
    and "\<forall>i<nat (binSize - 1). spectralData ! i = spectralData' ! i"
  shows "(\<forall>l. innerLoop spectralData samplingRate binSize l (py_range 0 (binSize - 1)) 0.0 =
              Inr (innerSum_spec (filterWeight samplingRate binSize) spectralData binSize l)) \<and>
         (m < numFilters \<and> 1 \<le> numFilters \<and>
          (\<forall>k l. 0 \<le> k \<and> k \<le> binSize - 2 \<and> 1 \<le> l \<and> l \<le> numFilters \<longrightarrow>
                weight k l = Inr (w k l)) \<longrightarrow>
            getCoefficientWith weight spectralData numFilters binSize m =
              Inr (normalization_spec numFilters m *
                   (\<Sum>l = 1..numFilters.
                      logEnergy_spec (\<Sum>k = 0..binSize - 2. \<bar>spectralData ! nat k * w k l\<bar>) *
                      cos ((real_of_int m * pi / real_of_int numFilters) *
                           (real_of_int l - 0.5))))) \<and>
         getCoefficientWith weight spectralData numFilters binSize m =
         getCoefficientWith weight spectralData' numFilters binSize m \<and>
         getCoefficient spectralData samplingRate numFilters binSize m =
         getCoefficient spectralData' samplingRate numFilters binSize m \<and>
         getCoefficient spectralData samplingRate numFilters binSize m =
         getCoefficientWith (getFilterParameter samplingRate binSize) spectralData numFilters
           binSize m"
proof (intro conjI allI impI)
  fix l
  have "binSize \<noteq> 0"
    using assms(1) by simp
  then have "\<forall>k. 0 \<le> k \<and> k \<le> binSize - 2 \<longrightarrow>
               getFilterParameter samplingRate binSize k l = Inr (filterWeight samplingRate binSize k l)"
    by (simp add: getFilterParameter_filterWeight)
  with assms(1,2)
  have "innerLoopWith (getFilterParameter samplingRate binSize) spectralData l
          (py_range 0 (binSize - 1)) 0 =
        Inr (innerSum_spec (filterWeight samplingRate binSize) spectralData binSize l)"
    by (rule innerLoopWith_spec)
  then show "innerLoop spectralData samplingRate binSize l (py_range 0 (binSize - 1)) 0.0 =
              Inr (innerSum_spec (filterWeight samplingRate binSize) spectralData binSize l)"
    by simp
next
  assume pre: "m < numFilters \<and> 1 \<le> numFilters \<and>
          (\<forall>k l. 0 \<le> k \<and> k \<le> binSize - 2 \<and> 1 \<le> l \<and> l \<le> numFilters \<longrightarrow>
                weight k l = Inr (w k l))"
  have "getCoefficientWith weight spectralData numFilters binSize m =
           Inr (normalization_spec numFilters m *
                outerSum_spec w spectralData numFilters binSize m)"
    using pre assms(1,2) by (intro getCoefficientWith_spec) simp_all
  then show "getCoefficientWith weight spectralData numFilters binSize m =
              Inr (normalization_spec numFilters m *
                   (\<Sum>l = 1..numFilters.
                      logEnergy_spec (\<Sum>k = 0..binSize - 2. \<bar>spectralData ! nat k * w k l\<bar>) *
                      cos ((real_of_int m * pi / real_of_int numFilters) *
                           (real_of_int l - 0.5))))"
    by (simp add: outerSum_spec_def innerSum_spec_def)
next
  show "getCoefficientWith weight spectralData numFilters binSize m =
         getCoefficientWith weight spectralData' numFilters binSize m"
    using assms(2,3,4) by (rule getCoefficientWith_agree)
next
  show "getCoefficient spectralData samplingRate numFilters binSize m =
         getCoefficient spectralData' samplingRate numFilters binSize m"
    unfolding getCoefficient_def using assms(2,3,4) by (rule getCoefficientWith_agree)
next
  show "getCoefficient spectralData samplingRate numFilters binSize m =
         getCoefficientWith (getFilterParameter samplingRate binSize) spectralData numFilters
           binSize m"
    by (simp add: getCoefficient_def)
qed

theorem getCoefficient_last_bin_unread_witness:
  "getCoefficient [2, 3] 16000 48 3 1 = getCoefficient [2, 3, 100] 16000 48 3 1 \<and>
   getCoefficientWith (\<lambda>k l. Inr 1) [2, 3] 1 3 0 =
     getCoefficientWith (\<lambda>k l. Inr 1) [2, 3, 100] 1 3 0 \<and>
   getCoefficientWith (\<lambda>k l. Inr 1) [2, 3] 1 3 0 = Inr (ln 5)"
proof -
  have size: "(1::int) \<le> 3"
    by simp
  have short: "(3::int) - 1 \<le> int (length [2, 3 :: real])"
    by simp
  have full: "(3::int) - 1 \<le> int (length [2, 3, 100 :: real])"
    by simp
  have agree: "\<forall>i<nat (3 - 1). [2, 3 :: real] ! i = [2, 3, 100] ! i"
    by (auto simp add: less_Suc_eq numeral_2_eq_2)
  have bins: "{0..1::int} = {0, 1}"
    by auto
  note code = getCoefficient_last_bin_unread [where samplingRate = 16000 and numFilters = 48
      and m = 1 and weight = "\<lambda>k l. Inr 1" and w = "\<lambda>k l. 1", OF size short full agree]
  note any = getCoefficient_last_bin_unread [where samplingRate = 16000 and numFilters = 1
      and m = 0 and weight = "\<lambda>k l. Inr 1" and w = "\<lambda>k l. 1", OF size short full agree]
  have "getCoefficient [2, 3] 16000 48 3 1 = getCoefficient [2, 3, 100] 16000 48 3 1"
    using code by blast
  moreover
  have "getCoefficientWith (\<lambda>k l. Inr 1) [2, 3] 1 3 0 =
          getCoefficientWith (\<lambda>k l. Inr 1) [2, 3, 100] 1 3 0"
    using any by blast
  moreover
  have "getCoefficientWith (\<lambda>k l. Inr 1) [2, 3] 1 3 0 = Inr (ln 5)"
    using any [THEN conjunct2, THEN conjunct1]
    by (simp add: normalization_spec_def logEnergy_spec_def bins)
  ultimately show ?thesis by blast
qed

text \<open>
  C9. For a frame of length \<open>binSize\<close> whose elements are all \<open>0.0\<close>, with
  \<open>numFilters \<ge> 1\<close> and \<open>binSize \<ge> 1\<close>, \<open>getCoefficient\<close> returns \<open>0.0\<close> for every
  \<open>m\<close> and every sampling rate: the energy of every band is \<open>0\<close>, the logarithm is
  skipped, and the sum over the bands is \<open>0\<close>.
\<close>

theorem getCoefficient_zero_energy:
  assumes "1 \<le> numFilters" and "1 \<le> binSize" and "length spectralData = nat binSize"
    and "\<forall>x\<in>set spectralData. x = 0.0"
  shows "getCoefficient spectralData samplingRate numFilters binSize m = Inr 0.0 \<and>
         (\<forall>l. innerLoop spectralData samplingRate binSize l (py_range 0 (binSize - 1)) 0.0 = Inr 0.0)"
proof -
  have zero: "innerSum_spec w spectralData binSize l = 0" for w l
    using innerSum_spec_zero [OF assms(2,3)] assms(4) by simp
  have len: "binSize - 1 \<le> int (length spectralData)"
    using assms(3) by simp
  have nz: "binSize \<noteq> 0"
    using assms(2) by simp
  have coeff: "getCoefficient spectralData samplingRate numFilters binSize m = Inr 0.0"
  proof (cases "m < numFilters")
    case True
    then show ?thesis
      using getCoefficient_spec [OF True assms(1,2) len, of samplingRate]
      by (simp add: outerSum_spec_def zero logEnergy_spec_def)
  next
    case False
    then show ?thesis
      by (simp add: getCoefficient_def getCoefficientWith_def)
  qed
  have inner: "innerLoop spectralData samplingRate binSize l (py_range 0 (binSize - 1)) 0.0 = Inr 0.0"
    for l
  proof -
    have "\<forall>k. 0 \<le> k \<and> k \<le> binSize - 2 \<longrightarrow>
            getFilterParameter samplingRate binSize k l = Inr (filterWeight samplingRate binSize k l)"
      using nz by (simp add: getFilterParameter_filterWeight)
    with assms(2) len
    have "innerLoopWith (getFilterParameter samplingRate binSize) spectralData l
            (py_range 0 (binSize - 1)) 0 =
          Inr (innerSum_spec (filterWeight samplingRate binSize) spectralData binSize l)"
      by (rule innerLoopWith_spec)
    then show ?thesis
      by (simp add: zero)
  qed
  from coeff inner show ?thesis by blast
qed

theorem getCoefficient_zero_energy_witness:
  "getCoefficient [0, 0, 0, 0] 16000 48 4 0 = Inr 0 \<and>
   getCoefficient [0, 0, 0, 0] 16000 48 4 7 = Inr 0 \<and>
   getCoefficient [0, 0, 0, 0] 16000 48 4 (- 2) = Inr 0 \<and>
   getCoefficient [0, 0, 0, 0] 16000 48 4 50 = Inr 0"
  using getCoefficient_zero_energy [of 48 4 "[0, 0, 0, 0]" 16000 0]
    getCoefficient_zero_energy [of 48 4 "[0, 0, 0, 0]" 16000 7]
    getCoefficient_zero_energy [of 48 4 "[0, 0, 0, 0]" 16000 "- 2"]
    getCoefficient_zero_energy [of 48 4 "[0, 0, 0, 0]" 16000 50]
  by simp

text \<open>
  C10. The guard of \<open>getCoefficient\<close> tests \<open>m \<ge> numFilters\<close> only. For a negative
  \<open>m\<close> and \<open>numFilters \<ge> 1\<close> the early return is not taken: the normalization factor
  is \<open>sqrt (2 / numFilters)\<close>, and the result is that of the loop over all bands and
  bins multiplied by this factor, an error of the loop being the result. On a frame of
  length \<open>binSize \<ge> 1\<close> this is \<open>sqrt (2 / numFilters)\<close> times the sum of the
  specification. The same holds of the body run with any filter weights \<open>w k l\<close>, where
  the sum need not be \<open>0\<close> and the factor shows in the result.
\<close>

theorem getCoefficient_negative_index:
  assumes "m < 0" and "1 \<le> numFilters"
  shows "getNormalizationFactor numFilters m = Inr (sqrt (2 / real_of_int numFilters)) \<and>
         getCoefficient spectralData samplingRate numFilters binSize m =
           and_then (outerLoop spectralData samplingRate numFilters binSize m
                       (py_range 1 (numFilters + 1)) 0.0)
             (\<lambda>outerSum. Inr (sqrt (2 / real_of_int numFilters) * outerSum)) \<and>
         getCoefficientWith weight spectralData numFilters binSize m =
           and_then (outerLoopWith weight spectralData numFilters binSize m
                       (py_range 1 (numFilters + 1)) 0.0)
             (\<lambda>outerSum. Inr (sqrt (2 / real_of_int numFilters) * outerSum)) \<and>
         (1 \<le> binSize \<and> length spectralData = nat binSize \<longrightarrow>
            getCoefficient spectralData samplingRate numFilters binSize m =
              Inr (sqrt (2 / real_of_int numFilters) *
                   outerSum_spec (filterWeight samplingRate binSize) spectralData
                     numFilters binSize m) \<and>
            ((\<forall>k l. 0 \<le> k \<and> k \<le> binSize - 2 \<and> 1 \<le> l \<and> l \<le> numFilters \<longrightarrow>
                      weight k l = Inr (w k l)) \<longrightarrow>
               getCoefficientWith weight spectralData numFilters binSize m =
                 Inr (sqrt (2 / real_of_int numFilters) *
                      (\<Sum>l = 1..numFilters.
                         logEnergy_spec (\<Sum>k = 0..binSize - 2. \<bar>spectralData ! nat k * w k l\<bar>) *
                         cos ((real_of_int m * pi / real_of_int numFilters) *
                              (real_of_int l - 0.5))))))"
proof -
  have guard: "\<not> numFilters \<le> m" and below: "m < numFilters" and nonzero: "m \<noteq> 0"
    using assms by simp_all
  have spec: "normalization_spec numFilters m = sqrt (2 / real_of_int numFilters)"
    using nonzero by (simp add: normalization_spec_def)
  have norm: "getNormalizationFactor numFilters m = Inr (sqrt (2 / real_of_int numFilters))"
    using getNormalizationFactor_pos [OF assms(2), of m] by (simp add: spec)
  have body: "getCoefficientWith f spectralData numFilters binSize m =
           and_then (outerLoopWith f spectralData numFilters binSize m
                       (py_range 1 (numFilters + 1)) 0.0)
             (\<lambda>outerSum. Inr (sqrt (2 / real_of_int numFilters) * outerSum))" for f
    using guard by (simp add: getCoefficientWith_def norm)
  have code: "getCoefficient spectralData samplingRate numFilters binSize m =
           and_then (outerLoop spectralData samplingRate numFilters binSize m
                       (py_range 1 (numFilters + 1)) 0.0)
             (\<lambda>outerSum. Inr (sqrt (2 / real_of_int numFilters) * outerSum))"
    unfolding getCoefficient_def by (rule body)
  have sums: "getCoefficient spectralData samplingRate numFilters binSize m =
              Inr (sqrt (2 / real_of_int numFilters) *
                   outerSum_spec (filterWeight samplingRate binSize) spectralData
                     numFilters binSize m) \<and>
            ((\<forall>k l. 0 \<le> k \<and> k \<le> binSize - 2 \<and> 1 \<le> l \<and> l \<le> numFilters \<longrightarrow>
                      weight k l = Inr (w k l)) \<longrightarrow>
               getCoefficientWith weight spectralData numFilters binSize m =
                 Inr (sqrt (2 / real_of_int numFilters) *
                      (\<Sum>l = 1..numFilters.
                         logEnergy_spec (\<Sum>k = 0..binSize - 2. \<bar>spectralData ! nat k * w k l\<bar>) *
                         cos ((real_of_int m * pi / real_of_int numFilters) *
                              (real_of_int l - 0.5)))))"
    if frame: "1 \<le> binSize \<and> length spectralData = nat binSize"
  proof (intro conjI impI)
    have len: "binSize - 1 \<le> int (length spectralData)"
      using frame by simp
    show "getCoefficient spectralData samplingRate numFilters binSize m =
              Inr (sqrt (2 / real_of_int numFilters) *
                   outerSum_spec (filterWeight samplingRate binSize) spectralData
                     numFilters binSize m)"
      using getCoefficient_spec [OF below assms(2) _ len, of samplingRate] frame
      by (simp add: spec)
    assume total: "\<forall>k l. 0 \<le> k \<and> k \<le> binSize - 2 \<and> 1 \<le> l \<and> l \<le> numFilters \<longrightarrow>
                      weight k l = Inr (w k l)"
    have "getCoefficientWith weight spectralData numFilters binSize m =
           Inr (normalization_spec numFilters m *
                outerSum_spec w spectralData numFilters binSize m)"
      using below assms(2) frame len total by (intro getCoefficientWith_spec) simp_all
    then show "getCoefficientWith weight spectralData numFilters binSize m =
                 Inr (sqrt (2 / real_of_int numFilters) *
                      (\<Sum>l = 1..numFilters.
                         logEnergy_spec (\<Sum>k = 0..binSize - 2. \<bar>spectralData ! nat k * w k l\<bar>) *
                         cos ((real_of_int m * pi / real_of_int numFilters) *
                              (real_of_int l - 0.5))))"
      by (simp add: spec outerSum_spec_def innerSum_spec_def)
  qed
  from norm code body [of weight] sums show ?thesis
    by blast
qed

theorem getCoefficient_negative_index_witness:
  "getNormalizationFactor 48 (- 3) = Inr (sqrt (2 / 48)) \<and>
   getCoefficient [] 16000 1 2 (- 1) = Inl IndexError \<and>
   getCoefficient [1, 1] 16000 48 2 (- 3) =
     Inr (sqrt (2 / 48) * outerSum_spec (filterWeight 16000 2) [1, 1] 48 2 (- 3)) \<and>
   getCoefficientWith (\<lambda>k l. Inr 1) [2, 7] 1 2 (- 2) = Inr (- (sqrt 2 * ln 2))"
proof -
  have neg: "(- 3::int) < 0" "(- 1::int) < 0" "(- 2::int) < 0"
    and filters: "(1::int) \<le> 48" "(1::int) \<le> 1"
    by simp_all
  note standard = getCoefficient_negative_index [where spectralData = "[1, 1]"
      and samplingRate = 16000 and binSize = 2 and weight = "\<lambda>k l. Inr 1" and w = "\<lambda>k l. 1",
      OF neg(1) filters(1)]
  note empty = getCoefficient_negative_index [where spectralData = "[]"
      and samplingRate = 16000 and binSize = 2 and weight = "\<lambda>k l. Inr 1" and w = "\<lambda>k l. 1",
      OF neg(2) filters(2)]
  note unit = getCoefficient_negative_index [where spectralData = "[2, 7]"
      and samplingRate = 16000 and binSize = 2 and weight = "\<lambda>k l. Inr 1" and w = "\<lambda>k l. 1",
      OF neg(3) filters(2)]
  have "getNormalizationFactor 48 (- 3) = Inr (sqrt (2 / 48))"
    using standard [THEN conjunct1] by simp
  moreover have "getCoefficient [] 16000 1 2 (- 1) = Inl IndexError"
    using empty [THEN conjunct2, THEN conjunct1]
    by (simp add: py_range_def np_index_def)
  moreover have "getCoefficient [1, 1] 16000 48 2 (- 3) =
     Inr (sqrt (2 / 48) * outerSum_spec (filterWeight 16000 2) [1, 1] 48 2 (- 3))"
    using standard [THEN conjunct2, THEN conjunct2, THEN conjunct2]
    by simp
  moreover have "getCoefficientWith (\<lambda>k l. Inr 1) [2, 7] 1 2 (- 2) = Inr (- (sqrt 2 * ln 2))"
    using unit [THEN conjunct2, THEN conjunct2, THEN conjunct2]
    by (simp add: logEnergy_spec_def)
  ultimately show ?thesis by blast
qed

subsection \<open>The filter weight\<close>

text \<open>
  Both \<open>prevCenterFrequency\<close> and \<open>nextCenterFrequency\<close> are
  \<open>getCenterFrequency (filterBand + 1)\<close>. Of the cases of the filter, the first, the
  rising edge and the last behave as written; the value is \<open>0\<close> in each of them, and
  so is every coefficient computed from a frame of the right length.
\<close>

lemma getFilterParameter_reached_cases:
  fixes samplingRate binSize k l :: int
  defines "boundary \<equiv> real_of_int (k * samplingRate) / real_of_int binSize"
  assumes "1 \<le> binSize"
  shows "(boundary < getCenterFrequency (l + 1) \<longrightarrow>
            getFilterParameter samplingRate binSize k l = Inr 0) \<and>
         (getCenterFrequency (l + 1) \<le> boundary \<and> boundary < getCenterFrequency l \<longrightarrow>
            getFilterParameter samplingRate binSize k l =
              Inr ((boundary - getCenterFrequency (l + 1)) /
                   (getCenterFrequency l - getCenterFrequency (l + 1)) *
                   projr (getMagnitudeFactor l))) \<and>
         (getCenterFrequency (l + 1) \<le> boundary \<and> boundary < real_of_int samplingRate \<longrightarrow>
            getFilterParameter samplingRate binSize k l = Inr 0)"
proof -
  have z: "getFilterParameter samplingRate binSize k l = Inr 0"
    using assms(2) by (intro getFilterParameter_zero) simp
  have "projr (getMagnitudeFactor l) = 0"
    if "getCenterFrequency (l + 1) \<le> boundary" and "boundary < getCenterFrequency l"
  proof -
    have "l = - 1"
      using getCenterFrequency_step [of l] that by force
    then show ?thesis
      by (simp add: getMagnitudeFactor_outside)
  qed
  with z show ?thesis by simp
qed

lemma getCoefficient_always_zero:
  assumes "1 \<le> numFilters" and "1 \<le> binSize" and "length spectralData = nat binSize"
  shows "getCoefficient spectralData samplingRate numFilters binSize m = Inr 0"
proof (cases "m < numFilters")
  case True
  have "binSize \<noteq> 0"
    using assms(2) by simp
  then have "filterWeight samplingRate binSize k l = 0" for k l
    by (simp add: filterWeight_def getFilterParameter_zero)
  then have "outerSum_spec (filterWeight samplingRate binSize) spectralData numFilters binSize m = 0"
    by (simp add: outerSum_spec_def innerSum_spec_def logEnergy_spec_def)
  moreover have "binSize - 1 \<le> int (length spectralData)"
    using assms(3) by simp
  ultimately show ?thesis
    using getCoefficient_spec [OF True assms(1,2), of spectralData samplingRate] by simp
next
  case False
  then show ?thesis
    by (simp add: getCoefficient_def getCoefficientWith_def)
qed

text \<open>
  C2. \<open>getFilterParameter\<close> is to return the falling edge
  \<open>((boundary - next) / (this - next)) * getMagnitudeFactor l\<close> when
  \<open>this \<le> boundary < next\<close>. At sampling rate \<open>8000\<close>, bin size \<open>256\<close>, bin \<open>3\<close> and
  band \<open>1\<close> the boundary \<open>93.75\<close> lies between \<open>this = 200 / 3\<close> and \<open>next = 400 / 3\<close>,
  the magnitude factor is \<open>0.015\<close> and the falling edge is \<open>57 / 6400\<close>; the function
  returns \<open>0\<close>, because the first test \<open>0 \<le> boundary < prev\<close> holds with
  \<open>prev = next\<close>.
\<close>

theorem getFilterParameter_falling_edge_unreached:
  "getFilterParameter 8000 256 3 1 = Inr 0 \<and>
   getCenterFrequency 1 \<le> (3 * 8000) / 256 \<and> (3 * 8000) / 256 < getCenterFrequency (1 + 1) \<and>
   getMagnitudeFactor 1 = Inr 0.015 \<and>
   (((3 * 8000) / 256 - getCenterFrequency (1 + 1)) /
      (getCenterFrequency 1 - getCenterFrequency (1 + 1))) * 0.015 = 57 / 6400"
proof -
  have cf1: "getCenterFrequency 1 = 200 / 3"
    by (simp add: getCenterFrequency_def)
  have cf2: "getCenterFrequency 2 = 400 / 3"
    by (simp add: getCenterFrequency_def)
  have fp: "getFilterParameter 8000 256 3 1 = Inr 0"
    by (simp add: getFilterParameter_def py_truediv_def Let_def cf1 cf2)
  have mf: "getMagnitudeFactor 1 = Inr 0.015"
    by (simp add: getMagnitudeFactor_def)
  show ?thesis
    by (simp add: fp mf cf1 cf2)
qed

end
